theory Spec2Isabelle
  imports Complex_Main
begin

section \<open>Conventions of the embedding\<close>

text \<open>
  The bot is TypeScript. A JavaScript \<open>number\<close> that holds a price, a balance or a token
  amount is modelled as a \<^typ>\<open>real\<close>, \<open>Math.sqrt\<close> as \<^const>\<open>sqrt\<close>; rounding, \<open>NaN\<close> and
  \<open>Infinity\<close> of IEEE doubles are outside the model. Counters and tick indexes are
  \<^typ>\<open>nat\<close> and \<^typ>\<open>int\<close>. A thrown exception is a value \<open>Inl e\<close> of a sum type, a normal
  return is \<open>Inr v\<close>. Calls to collaborators (network, SDK, notification sink) are recorded
  in a trace; what a collaborator answers is a parameter of the model.
\<close>

subsection \<open>Thrown values\<close>

text \<open>
  \<open>Error msg\<close> is any error object thrown by a collaborator, with its message. The other
  constructors are the errors this repository constructs itself:
  \<open>ConnectionNotInitialized\<close> is \<open>new Error('Solana connection not initialized')\<close>,
  \<open>TransactionFailedAfter retries lastError\<close> is
  \<open>new Error(`Transaction failed after ${retries} attempts: ${lastError?.message}`)\<close>, and
  \<open>OperationFailedAfterRetries\<close> is \<open>new Error('Operation failed after retries')\<close>.
\<close>

datatype error =
    Error string
  | ConnectionNotInitialized
  | TransactionFailedAfter int "error option"
  | OperationFailedAfterRetries

section \<open>Allocation: \<open>RaydiumService.getOptimalAmounts\<close> and \<open>calculateOptimalAmounts\<close>\<close>

record amounts =
  solAmount :: real
  usdcAmount :: real

text \<open>\<open>CONSTANTS.POSITION.MIN_SOL_AMOUNT = 0.01\<close> and \<open>MIN_USDC_AMOUNT = 5\<close>.\<close>

definition MIN_SOL_AMOUNT :: real where
  "MIN_SOL_AMOUNT = 1 / 100"

definition MIN_USDC_AMOUNT :: real where
  "MIN_USDC_AMOUNT = 5"

text \<open>
  \<open>getOptimalAmounts(lowerPrice, upperPrice, totalValue)\<close> of the Raydium service. Its first
  statement is \<open>const currentPrice = await this.getCurrentPrice()\<close>; the outcome of that
  read is the parameter \<open>priceRead\<close>, and a rejected read rejects the whole call. There is
  no other \<open>throw\<close> in the function and no post-processing of the two amounts.
\<close>

definition getOptimalAmounts ::
  "(error + real) \<Rightarrow> real \<Rightarrow> real \<Rightarrow> real \<Rightarrow> error + amounts" where
  "getOptimalAmounts priceRead lowerPrice upperPrice totalValue =
     (case priceRead of
        Inl e \<Rightarrow> Inl e
      | Inr currentPrice \<Rightarrow>
          (let sqrtPriceLower = sqrt lowerPrice;
               sqrtPriceUpper = sqrt upperPrice;
               sqrtPriceCurrent = sqrt currentPrice
           in if currentPrice \<le> lowerPrice then
                Inr \<lparr>solAmount = 0, usdcAmount = totalValue\<rparr>
              else if currentPrice \<ge> upperPrice then
                Inr \<lparr>solAmount = totalValue / currentPrice, usdcAmount = 0\<rparr>
              else
                (let weight = (sqrtPriceUpper - sqrtPriceCurrent) / (sqrtPriceUpper - sqrtPriceLower)
                 in Inr \<lparr>solAmount = (totalValue / currentPrice) * (1 - weight),
                         usdcAmount = totalValue * weight\<rparr>)))"

text \<open>
  \<open>calculateOptimalAmounts(lowerPrice, upperPrice, currentPrice, totalValueUsdc)\<close> of the
  helpers: a synchronous function without any \<open>throw\<close>. It is embedded as its two blocks.
  \<open>splitByRange\<close> is the three-way branch that first assigns the \<open>let\<close> variables
  \<open>solAmount\<close> and \<open>usdcAmount\<close> (both start at 0).
\<close>

definition splitByRange :: "real \<Rightarrow> real \<Rightarrow> real \<Rightarrow> real \<Rightarrow> amounts" where
  "splitByRange lowerPrice upperPrice currentPrice totalValueUsdc =
     (let sqrtPrice = sqrt currentPrice;
          sqrtLowerPrice = sqrt lowerPrice;
          sqrtUpperPrice = sqrt upperPrice
      in if currentPrice \<le> lowerPrice then
           \<lparr>solAmount = 0, usdcAmount = totalValueUsdc\<rparr>
         else if currentPrice \<ge> upperPrice then
           \<lparr>solAmount = totalValueUsdc / currentPrice, usdcAmount = 0\<rparr>
         else
           (let positionInRange = (sqrtPrice - sqrtLowerPrice) / (sqrtUpperPrice - sqrtLowerPrice)
            in \<lparr>solAmount = (totalValueUsdc / currentPrice) * (1 - positionInRange),
                usdcAmount = totalValueUsdc * positionInRange\<rparr>))"

text \<open>
  \<open>applyMinimumThresholds\<close> is the block under the comment "Apply minimum thresholds": two
  \<open>if\<close> statements in sequence, the second reading the \<open>usdcAmount\<close> that the first may
  have overwritten.
\<close>

definition applyMinimumThresholds :: "real \<Rightarrow> real \<Rightarrow> amounts \<Rightarrow> amounts" where
  "applyMinimumThresholds currentPrice totalValueUsdc a0 =
     (let a1 = (if solAmount a0 < MIN_SOL_AMOUNT
                then \<lparr>solAmount = 0, usdcAmount = totalValueUsdc\<rparr> else a0);
          a2 = (if usdcAmount a1 < MIN_USDC_AMOUNT
                then \<lparr>solAmount = totalValueUsdc / currentPrice, usdcAmount = 0\<rparr> else a1)
      in a2)"

definition calculateOptimalAmounts :: "real \<Rightarrow> real \<Rightarrow> real \<Rightarrow> real \<Rightarrow> amounts" where
  "calculateOptimalAmounts lowerPrice upperPrice currentPrice totalValueUsdc =
     applyMinimumThresholds currentPrice totalValueUsdc
       (splitByRange lowerPrice upperPrice currentPrice totalValueUsdc)"

text \<open>The value of an allocation at a price, in the quote asset.\<close>

definition valueAt :: "real \<Rightarrow> amounts \<Rightarrow> real" where
  "valueAt currentPrice a = solAmount a * currentPrice + usdcAmount a"

text \<open>
  The reference formula, written from the specification's words (section 4.2) and not from
  the code: \<open>s\<close>, \<open>sl\<close>, \<open>su\<close> the square roots of the current, lower and upper price,
  \<open>weight = (su - s) / (su - sl)\<close>.
\<close>

definition referenceAllocation :: "real \<Rightarrow> real \<Rightarrow> real \<Rightarrow> real \<Rightarrow> amounts" where
  "referenceAllocation lowerPrice upperPrice currentPrice totalValue =
     (let s = sqrt currentPrice; sl = sqrt lowerPrice; su = sqrt upperPrice
      in if currentPrice \<le> lowerPrice then \<lparr>solAmount = 0, usdcAmount = totalValue\<rparr>
         else if currentPrice \<ge> upperPrice then
           \<lparr>solAmount = totalValue / currentPrice, usdcAmount = 0\<rparr>
         else (let weight = (su - s) / (su - sl)
               in \<lparr>solAmount = (totalValue / currentPrice) * (1 - weight),
                   usdcAmount = totalValue * weight\<rparr>))"

text \<open>An allocation without dust: each leg is zero or at least its minimum amount.\<close>

definition dustFree :: "amounts \<Rightarrow> bool" where
  "dustFree a \<longleftrightarrow>
     (solAmount a = 0 \<or> MIN_SOL_AMOUNT \<le> solAmount a)
     \<and> (usdcAmount a = 0 \<or> MIN_USDC_AMOUNT \<le> usdcAmount a)"

section \<open>Tick conversion: \<open>RaydiumService.calculateTickIndexes\<close>\<close>

text \<open>
  The cached pool state of the service (\<open>this.poolInfo\<close>, or \<open>null\<close>): \<open>price\<close> is the
  number that \<open>AmmV3.getCurrencyAmount\<close> computes from the pool's \<open>sqrtPriceX64\<close>,
  \<open>tickSpacing\<close> the pool's tick spacing.
\<close>

record poolInfo =
  price :: real
  tickSpacing :: int

record tickIndexes =
  lowerTickIndex :: int
  upperTickIndex :: int

text \<open>
  \<open>calculateTickIndexes(lowerPrice, upperPrice)\<close>. \<open>AmmV3.priceToTickIndex\<close> belongs to the
  Raydium SDK, not to this repository: it is the parameter \<open>priceToTickIndex\<close>, any function
  from a price and a tick spacing to an integer tick. The alignment is
  \<open>Math.floor(lowerTickIndex / tickSpacing) * tickSpacing\<close> and
  \<open>Math.ceil(upperTickIndex / tickSpacing) * tickSpacing\<close>, with the division of numbers.
\<close>

definition calculateTickIndexes ::
  "poolInfo option \<Rightarrow> (real \<Rightarrow> int \<Rightarrow> int) \<Rightarrow> real \<Rightarrow> real \<Rightarrow> error + tickIndexes" where
  "calculateTickIndexes thisPoolInfo priceToTickIndex lowerPrice upperPrice =
     (case thisPoolInfo of
        None \<Rightarrow> Inl (Error ''Pool info not available'')
      | Some info \<Rightarrow>
          (let spacing = tickSpacing info;
               lowerTick = priceToTickIndex lowerPrice spacing;
               upperTick = priceToTickIndex upperPrice spacing
           in Inr \<lparr>lowerTickIndex = \<lfloor>real_of_int lowerTick / real_of_int spacing\<rfloor> * spacing,
                   upperTickIndex = \<lceil>real_of_int upperTick / real_of_int spacing\<rceil> * spacing\<rparr>))"

section \<open>Submission with retries: \<open>sendTransactionWithRetry\<close> and \<open>retry\<close>\<close>

text \<open>
  What a submitter does towards the outside, in order: \<open>Attempt k\<close> is the \<open>k\<close>-th
  execution of the \<open>try\<close> block (for \<open>sendTransactionWithRetry\<close>: fetch a fresh blockhash,
  then \<open>sendAndConfirmTransaction\<close>), \<open>Sleep ms\<close> a \<open>setTimeout\<close> wait of \<open>ms\<close>
  milliseconds.
\<close>

datatype event = Attempt nat | Sleep real

text \<open>
  The \<open>while (attempts < retries)\<close> loop of \<open>sendTransactionWithRetry\<close>, with the loop
  variables \<open>attempts\<close> and \<open>lastError\<close> as arguments. \<open>sendAndConfirm k\<close> is the outcome of
  the \<open>try\<close> block at its \<open>k\<close>-th execution: the signature, or the error thrown.
\<close>

function sendLoop ::
  "(nat \<Rightarrow> error + string) \<Rightarrow> int \<Rightarrow> nat \<Rightarrow> error option \<Rightarrow> event list \<times> (error + string)" where
  "sendLoop sendAndConfirm retries attempts lastError =
     (if int attempts < retries then
        (case sendAndConfirm (attempts + 1) of
           Inr signature \<Rightarrow> ([Attempt (attempts + 1)], Inr signature)
         | Inl error \<Rightarrow>
             (if int (attempts + 1) < retries then
                (let delay = 2 ^ (attempts + 1) * 1000;
                     (events, result) = sendLoop sendAndConfirm retries (attempts + 1) (Some error)
                 in (Attempt (attempts + 1) # Sleep delay # events, result))
              else
                (let (events, result) = sendLoop sendAndConfirm retries (attempts + 1) (Some error)
                 in (Attempt (attempts + 1) # events, result))))
      else ([], Inl (TransactionFailedAfter retries lastError)))"
  by pat_completeness auto
termination
  by (relation "measure (\<lambda>(sendAndConfirm, retries, attempts, lastError). nat (retries - int attempts))")
    auto

declare sendLoop.simps [simp del]

text \<open>
  \<open>sendTransactionWithRetry(transaction, signers, retries)\<close>; \<open>connectionInitialized\<close> says whether the
  module variable \<open>connection\<close> has been set by \<open>initializeConnection\<close>.
\<close>

definition sendTransactionWithRetry ::
  "bool \<Rightarrow> (nat \<Rightarrow> error + string) \<Rightarrow> int \<Rightarrow> event list \<times> (error + string)" where
  "sendTransactionWithRetry connectionInitialized sendAndConfirm retries =
     (if \<not> connectionInitialized then ([], Inl ConnectionNotInitialized)
      else sendLoop sendAndConfirm retries 0 None)"

text \<open>
  The loop of the helper \<open>retry(fn, retries, baseDelay)\<close>; \<open>fn k\<close> is the outcome of the
  \<open>k\<close>-th call of \<open>fn\<close>. After a failure with \<open>attempts >= retries\<close> the loop is left by
  \<open>break\<close>, and the statement after the loop throws \<open>lastError\<close>.
\<close>

function retryLoop ::
  "(nat \<Rightarrow> error + 'a) \<Rightarrow> int \<Rightarrow> real \<Rightarrow> nat \<Rightarrow> error option \<Rightarrow> event list \<times> (error + 'a)" where
  "retryLoop fn retries baseDelay attempts lastError =
     (if int attempts < retries then
        (case fn (attempts + 1) of
           Inr v \<Rightarrow> ([Attempt (attempts + 1)], Inr v)
         | Inl error \<Rightarrow>
             (if int (attempts + 1) \<ge> retries then
                ([Attempt (attempts + 1)], Inl error)
              else
                (let delay = baseDelay * 2 ^ (attempts + 1);
                     (events, result) = retryLoop fn retries baseDelay (attempts + 1) (Some error)
                 in (Attempt (attempts + 1) # Sleep delay # events, result))))
      else ([], Inl (case lastError of Some e \<Rightarrow> e | None \<Rightarrow> OperationFailedAfterRetries)))"
  by pat_completeness auto
termination
  by (relation "measure (\<lambda>(fn, retries, baseDelay, attempts, lastError). nat (retries - int attempts))")
    auto

declare retryLoop.simps [simp del]

definition retry :: "(nat \<Rightarrow> error + 'a) \<Rightarrow> int \<Rightarrow> real \<Rightarrow> event list \<times> (error + 'a)" where
  "retry fn retries baseDelay = retryLoop fn retries baseDelay 0 None"

text \<open>
  The schedule that the specification describes for \<open>n\<close> failing attempts, written from its
  words: attempts numbered from 1, after each attempt but the last a sleep of
  \<open>baseDelay * 2 ^ attemptNumber\<close>, and nothing after the last attempt.
\<close>

definition backoffSchedule :: "real \<Rightarrow> nat \<Rightarrow> event list" where
  "backoffSchedule baseDelay n =
     concat (map (\<lambda>k. [Attempt k, Sleep (baseDelay * 2 ^ k)]) [1..<n]) @ [Attempt n]"

fun attemptsMade :: "event list \<Rightarrow> nat" where
  "attemptsMade [] = 0"
| "attemptsMade (Attempt k # events) = Suc (attemptsMade events)"
| "attemptsMade (Sleep ms # events) = attemptsMade events"

section \<open>Position listing: \<open>RaydiumService.fetchPoolInfo\<close> and \<open>getPositions\<close>\<close>

text \<open>
  \<open>fetchPoolInfo\<close>: \<open>fetched\<close> is the outcome of the SDK call
  \<open>AmmV3.fetchMultiplePoolInfos\<close>. An error of that call is logged and thrown again, an
  empty answer throws "Pool not found", otherwise the first pool becomes \<open>this.poolInfo\<close>.
\<close>

definition fetchPoolInfo :: "(error + poolInfo list) \<Rightarrow> error + poolInfo" where
  "fetchPoolInfo fetched =
     (case fetched of
        Inl e \<Rightarrow> Inl e
      | Inr [] \<Rightarrow> Inl (Error ''Pool not found'')
      | Inr (info # others) \<Rightarrow> Inr info)"

text \<open>
  A position as the manager reads it: \<open>positionId\<close>, \<open>ownerAddress\<close>, the price bounds and
  the two token amounts.
\<close>

record position = amounts +
  positionId :: string
  ownerAddress :: string
  lowerPrice :: real
  upperPrice :: real

text \<open>
  \<open>getPositions()\<close>: the service state \<open>this.poolInfo\<close> is passed in and returned. The
  statement \<open>if (!this.poolInfo) await this.fetchPoolInfo()\<close> stands before the \<open>try\<close>
  block; \<open>queried\<close> is the outcome of everything inside the \<open>try\<close> block up to the
  filter (the SDK call \<open>AmmV3.fetchMultiplePoolTickArrays\<close>), and the \<open>catch\<close> returns
  \<open>[]\<close>.
\<close>

definition getPositions ::
  "poolInfo option \<Rightarrow> (error + poolInfo list) \<Rightarrow> (error + position list) \<Rightarrow> string
     \<Rightarrow> (error + position list) \<times> poolInfo option" where
  "getPositions thisPoolInfo fetched queried walletKey =
     (case (case thisPoolInfo of None \<Rightarrow> fetchPoolInfo fetched | Some info \<Rightarrow> Inr info) of
        Inl e \<Rightarrow> (Inl e, thisPoolInfo)
      | Inr info \<Rightarrow>
          (case queried of
             Inr positions \<Rightarrow>
               (Inr (filter (\<lambda>position. ownerAddress position = walletKey) positions), Some info)
           | Inl error \<Rightarrow> (Inr [], Some info)))"

section \<open>The rebalance cycle: \<open>LiquidityManager.managePositions\<close>\<close>

text \<open>
  \<open>isPositionInRange(position)\<close> and \<open>getPriceRange()\<close>, each with the price that its
  \<open>getCurrentPrice()\<close> call returns as the argument \<open>currentPrice\<close>;
  \<open>priceRangePercent\<close> is \<open>config.priceRangePercent\<close>.
\<close>

definition isPositionInRange :: "real \<Rightarrow> position \<Rightarrow> bool" where
  "isPositionInRange currentPrice position \<longleftrightarrow>
     currentPrice \<ge> lowerPrice position \<and> currentPrice \<le> upperPrice position"

definition getPriceRange :: "real \<Rightarrow> real \<Rightarrow> real \<times> real" where
  "getPriceRange currentPrice priceRangePercent =
     (let rangePercent = priceRangePercent / 100;
          lowerBound = currentPrice * (1 - rangePercent);
          upperBound = currentPrice * (1 + rangePercent)
      in (lowerBound, upperBound))"

record balances =
  sol :: real
  usdc :: real

datatype txType = Deposit | Withdraw

text \<open>
  The calls that \<open>managePositions\<close> itself makes to its collaborators, in the order it makes
  them. \<open>LogInfo msg numbers\<close> and \<open>LogError msg error\<close> are the logger calls, with the fixed
  part of the message and the numbers formatted into it; \<open>ClosePosition id\<close> is
  \<open>raydiumService.closePosition(id)\<close>; \<open>CreatePosition sol usdc lower upper\<close> is
  \<open>raydiumService.createPosition\<close>; the others are the methods of the notification service
  with their payload. Every method of the notification service catches its own errors, so
  none of them throws.
\<close>

datatype call =
    LogInfo string "real list"
  | LogError string error
  | SendPriceUpdateNotification real real real
  | ClosePosition string
  | SendPositionWithdrawnNotification position
  | SendTransactionNotification txType string real real string
  | SendErrorNotification string error
  | SendBalanceNotification balances
  | CreatePosition real real real real
  | SendPositionCreatedNotification string real real real real

text \<open>
  A piece of the \<open>async\<close> body: the calls it made, and how it ended, with a value or with a
  thrown error. \<open>emit\<close> makes calls that cannot throw, \<open>awaitResult\<close> is the \<open>await\<close> of a
  collaborator's answer, \<open>andThen\<close> is sequencing (a thrown error skips what follows), and
  \<open>tryCatch\<close> is \<open>try { ... } catch (error) { ... }\<close>.
\<close>

type_synonym 'a action = "call list \<times> (error + 'a)"

definition emit :: "call list \<Rightarrow> unit action" where
  "emit calls = (calls, Inr ())"

definition awaitResult :: "error + 'a \<Rightarrow> 'a action" where
  "awaitResult outcome = ([], outcome)"

definition andThen :: "'a action \<Rightarrow> ('a \<Rightarrow> 'b action) \<Rightarrow> 'b action" where
  "andThen first rest =
     (case first of
        (calls, Inl e) \<Rightarrow> (calls, Inl e)
      | (calls, Inr v) \<Rightarrow> (case rest v of (calls', outcome) \<Rightarrow> (calls @ calls', outcome)))"

definition tryCatch :: "'a action \<Rightarrow> (error \<Rightarrow> 'a action) \<Rightarrow> 'a action" where
  "tryCatch body handler =
     (case body of
        (calls, Inr v) \<Rightarrow> (calls, Inr v)
      | (calls, Inl e) \<Rightarrow> (case handler e of (calls', outcome) \<Rightarrow> (calls @ calls', outcome)))"

text \<open>
  What the collaborators answer during one cycle. \<open>managePositions\<close> first runs
  \<open>initialize()\<close> unless the manager is initialised, and that loads the pool state or throws
  before the cycle's \<open>try\<close> block is entered; the model is of the \<open>try\<close> block in a service
  whose pool state \<open>pool\<close> is loaded, so every \<open>getCurrentPrice()\<close> of the cycle returns
  \<open>price pool\<close>. \<open>balanceReads k\<close> is the outcome of the \<open>k\<close>-th call (from 0) of
  \<open>walletManager.getTokenBalances()\<close>, \<open>closeOutcome i id\<close> the outcome of
  \<open>closePosition(id)\<close> for the \<open>i\<close>-th listed position, \<open>createOutcome\<close> the outcome of
  \<open>createPosition\<close>, \<open>now\<close> the text of \<open>Date.now()\<close>.
\<close>

record env =
  pool :: poolInfo
  priceRangePercentConfig :: real
  minSolBalance :: real
  walletPublicKey :: string
  tickArrayQuery :: "error + position list"
  balanceReads :: "nat \<Rightarrow> error + balances"
  closeOutcome :: "nat \<Rightarrow> string \<Rightarrow> error + string"
  createOutcome :: "real \<Rightarrow> real \<Rightarrow> real \<Rightarrow> real \<Rightarrow> error + string"
  now :: string

text \<open>
  The body of \<open>for (const position of positions)\<close> for the \<open>i\<close>-th position; the loop
  variable \<open>positionClosed\<close> goes in and comes out.
\<close>

definition closeIfOutOfRange :: "env \<Rightarrow> real \<Rightarrow> nat \<Rightarrow> position \<Rightarrow> bool \<Rightarrow> bool action" where
  "closeIfOutOfRange env currentPrice i position positionClosed =
     (let isInRange = isPositionInRange currentPrice position in
      if \<not> isInRange then
        andThen (emit [LogInfo (''Position '' @ positionId position @ '' is out of range, closing'') []])
          (\<lambda>_.
        tryCatch
          (andThen (emit [ClosePosition (positionId position)]) (\<lambda>_.
           andThen (awaitResult (closeOutcome env i (positionId position))) (\<lambda>signature.
           andThen (emit [SendPositionWithdrawnNotification position,
                          SendTransactionNotification Withdraw signature
                            (solAmount position) (usdcAmount position) (positionId position)]) (\<lambda>_.
           ([], Inr True)))))
          (\<lambda>error.
           andThen (emit [LogError (''Failed to close position '' @ positionId position) error,
                          SendErrorNotification (''Failed to close position '' @ positionId position)
                            error]) (\<lambda>_.
           ([], Inr positionClosed))))
      else
        andThen (emit [LogInfo (''Position '' @ positionId position @ '' is in range, keeping'') []])
          (\<lambda>_. ([], Inr positionClosed)))"

fun closeOutOfRange :: "env \<Rightarrow> real \<Rightarrow> nat \<Rightarrow> position list \<Rightarrow> bool \<Rightarrow> bool action" where
  "closeOutOfRange env currentPrice i [] positionClosed = ([], Inr positionClosed)"
| "closeOutOfRange env currentPrice i (position # rest) positionClosed =
     andThen (closeIfOutOfRange env currentPrice i position positionClosed)
       (\<lambda>positionClosed'. closeOutOfRange env currentPrice (i + 1) rest positionClosed')"

text \<open>
  From "Only open a new position if we have at least 0.1 SOL and 10 USDC" to the end of that
  \<open>if\<close>/\<open>else\<close>; \<open>k\<close> is the number of balance reads made so far. \<open>getOptimalAmounts\<close>
  reads the price again and gets the cached one.
\<close>

definition openIfFunded :: "env \<Rightarrow> real \<Rightarrow> real \<Rightarrow> real \<Rightarrow> balances \<Rightarrow> nat \<Rightarrow> unit action" where
  "openIfFunded env currentPrice lowerBound upperBound updatedBalances k =
     (let minSolForPosition = 1 / 10;
          minUsdcForPosition = 10;
          availableSol = sol updatedBalances - minSolBalance env
      in if availableSol \<ge> minSolForPosition \<and> usdc updatedBalances \<ge> minUsdcForPosition then
           andThen (emit [LogInfo ''Creating new position with available funds'' []]) (\<lambda>_.
           let totalValueUSDC = availableSol * currentPrice + usdc updatedBalances in
           andThen (awaitResult (getOptimalAmounts (Inr currentPrice) lowerBound upperBound
                                   (totalValueUSDC * (98 / 100)))) (\<lambda>optimal.
           let finalSolAmount = min (solAmount optimal) availableSol;
               finalUsdcAmount = min (usdcAmount optimal) (usdc updatedBalances)
           in tryCatch
                (andThen (emit [CreatePosition finalSolAmount finalUsdcAmount lowerBound upperBound])
                   (\<lambda>_.
                 andThen (awaitResult (createOutcome env finalSolAmount finalUsdcAmount
                                         lowerBound upperBound)) (\<lambda>signature.
                 let newId = ''new-position-'' @ now env in
                 andThen (emit [SendPositionCreatedNotification newId lowerBound upperBound
                                  finalSolAmount finalUsdcAmount,
                                SendTransactionNotification Deposit signature
                                  finalSolAmount finalUsdcAmount newId]) (\<lambda>_.
                 andThen (awaitResult (balanceReads env k)) (\<lambda>newBalances.
                 emit [SendBalanceNotification newBalances,
                       LogInfo ''New position created successfully with SOL and USDC''
                         [finalSolAmount, finalUsdcAmount]])))))
                (\<lambda>error.
                 emit [LogError ''Failed to create new position'' error,
                       SendErrorNotification ''Failed to create new position'' error])))
         else
           emit [LogInfo ''Insufficient funds to create a new position'' [],
                 LogInfo ''Requires minimum SOL and USDC'' [minSolForPosition, minUsdcForPosition],
                 LogInfo ''Available: SOL and USDC'' [availableSol, usdc updatedBalances]])"

text \<open>The \<open>try\<close> block of \<open>managePositions\<close>.\<close>

definition cycle :: "env \<Rightarrow> unit action" where
  "cycle env =
     (let currentPrice = price (pool env);
          (lowerBound, upperBound) = getPriceRange currentPrice (priceRangePercentConfig env)
      in andThen (emit [LogInfo ''Starting position management cycle'' [],
                        SendPriceUpdateNotification currentPrice lowerBound upperBound]) (\<lambda>_.
         andThen (awaitResult (balanceReads env 0)) (\<lambda>current.
         andThen (emit [LogInfo ''Current balances: SOL, USDC'' [sol current, usdc current]]) (\<lambda>_.
         andThen (awaitResult (fst (getPositions (Some (pool env)) (Inr [pool env])
                                      (tickArrayQuery env) (walletPublicKey env)))) (\<lambda>positions.
         andThen (emit [LogInfo ''Found existing positions'' [real (length positions)]]) (\<lambda>_.
         andThen (closeOutOfRange env currentPrice 0 positions False) (\<lambda>positionClosed.
         andThen (if positionClosed then
                    andThen (awaitResult (balanceReads env 1)) (\<lambda>afterClose.
                    andThen (emit [SendBalanceNotification afterClose,
                                   LogInfo ''Updated balances after closing positions: SOL, USDC''
                                     [sol afterClose, usdc afterClose]]) (\<lambda>_.
                    ([], Inr 2)))
                  else ([], Inr 1)) (\<lambda>k.
         andThen (awaitResult (balanceReads env k)) (\<lambda>updatedBalances.
         andThen (openIfFunded env currentPrice lowerBound upperBound updatedBalances (k + 1)) (\<lambda>_.
         emit [LogInfo ''Position management cycle completed'' []]))))))))))"

text \<open>\<open>managePositions\<close>: the \<open>try\<close> block and its \<open>catch\<close>.\<close>

definition managePositions :: "env \<Rightarrow> unit action" where
  "managePositions env =
     tryCatch (cycle env)
       (\<lambda>error. emit [LogError ''Error managing positions'' error,
                       SendErrorNotification ''Error during position management cycle'' error])"

text \<open>Readings of a trace, for stating the theorems.\<close>

fun closeCalls :: "call list \<Rightarrow> string list" where
  "closeCalls [] = []"
| "closeCalls (ClosePosition closedId # calls) = closedId # closeCalls calls"
| "closeCalls (other # calls) = closeCalls calls"

fun createCalls :: "call list \<Rightarrow> (real \<times> real \<times> real \<times> real) list" where
  "createCalls [] = []"
| "createCalls (CreatePosition baseAmount quoteAmount lowerBound upperBound # calls) =
     (baseAmount, quoteAmount, lowerBound, upperBound) # createCalls calls"
| "createCalls (other # calls) = createCalls calls"

fun errorReports :: "call list \<Rightarrow> (string \<times> error) list" where
  "errorReports [] = []"
| "errorReports (SendErrorNotification msg e # calls) = (msg, e) # errorReports calls"
| "errorReports (other # calls) = errorReports calls"

text \<open>
  The positions that \<open>getPositions\<close> returns in the cycle, and the close failures that the
  cycle has to report, position by position.
\<close>

definition listedPositions :: "env \<Rightarrow> position list" where
  "listedPositions env =
     (case tickArrayQuery env of
        Inr positions \<Rightarrow> filter (\<lambda>position. ownerAddress position = walletPublicKey env) positions
      | Inl e \<Rightarrow> [])"

fun failedCloses :: "env \<Rightarrow> real \<Rightarrow> nat \<Rightarrow> position list \<Rightarrow> (string \<times> error) list" where
  "failedCloses env currentPrice i [] = []"
| "failedCloses env currentPrice i (position # rest) =
     (if isPositionInRange currentPrice position then []
      else (case closeOutcome env i (positionId position) of
              Inl e \<Rightarrow> [(''Failed to close position '' @ positionId position, e)]
            | Inr signature \<Rightarrow> []))
     @ failedCloses env currentPrice (i + 1) rest"

subsection \<open>An example cycle\<close>

text \<open>
  Inputs for evaluating the cycle: a pool at price 100, a wallet \<open>W\<close> with three positions
  (\<open>A\<close> around the price, \<open>B\<close> above it, \<open>C\<close> below it), a close of \<open>B\<close> that is
  rejected, and a wallet that answers every balance read with \<open>held\<close>.
\<close>

definition examplePositions :: "position list" where
  "examplePositions =
     [\<lparr>solAmount = 1, usdcAmount = 100, positionId = ''A'', ownerAddress = ''W'',
        lowerPrice = 95, upperPrice = 105\<rparr>,
      \<lparr>solAmount = 1, usdcAmount = 100, positionId = ''B'', ownerAddress = ''W'',
        lowerPrice = 110, upperPrice = 120\<rparr>,
      \<lparr>solAmount = 2, usdcAmount = 0, positionId = ''C'', ownerAddress = ''W'',
        lowerPrice = 80, upperPrice = 90\<rparr>]"

definition exampleEnv :: "position list \<Rightarrow> balances \<Rightarrow> env" where
  "exampleEnv positions held =
     \<lparr>pool = \<lparr>price = 100, tickSpacing = 10\<rparr>,
      priceRangePercentConfig = 5,
      minSolBalance = 1 / 20,
      walletPublicKey = ''W'',
      tickArrayQuery = Inr positions,
      balanceReads = (\<lambda>k. Inr held),
      closeOutcome = (\<lambda>i closing. if closing = ''B'' then Inl (Error ''rejected'') else Inr ''sig''),
      createOutcome = (\<lambda>baseAmount quoteAmount lowerBound upperBound. Inr ''sig''),
      now = ''0''\<rparr>"

section \<open>Theorems about the allocation\<close>

lemma getOptimalAmounts_reference:
  "getOptimalAmounts (Inr currentPrice) lowerP upperP totalValue
     = Inr (referenceAllocation lowerP upperP currentPrice totalValue)"
  by (simp add: getOptimalAmounts_def referenceAllocation_def Let_def)

lemma getOptimalAmounts_rejected:
  "getOptimalAmounts (Inl e) lowerP upperP totalValue = Inl e"
  by (simp add: getOptimalAmounts_def)

lemma splitByRange_boundaries:
  "currentPrice \<le> lowerP \<or> upperP \<le> currentPrice \<Longrightarrow>
     splitByRange lowerP upperP currentPrice totalValue
       = referenceAllocation lowerP upperP currentPrice totalValue"
  by (auto simp add: splitByRange_def referenceAllocation_def Let_def)

lemma valueAt_weighted:
  fixes c t w :: real
  assumes "s * c = t * (1 - w)"
  shows "valueAt c \<lparr>solAmount = s, usdcAmount = t * w\<rparr> = t"
  using assms by (simp add: valueAt_def algebra_simps)

lemma valueAt_three_way:
  fixes c t w :: real
  assumes "0 < c"
  shows "valueAt c (if P then \<lparr>solAmount = 0, usdcAmount = t\<rparr>
                    else if Q then \<lparr>solAmount = t / c, usdcAmount = 0\<rparr>
                    else \<lparr>solAmount = (t / c) * (1 - w), usdcAmount = t * w\<rparr>) = t"
proof -
  have "(t / c) * (1 - w) * c = t * (1 - w)"
    using assms by simp
  then have "valueAt c \<lparr>solAmount = (t / c) * (1 - w), usdcAmount = t * w\<rparr> = t"
    by (rule valueAt_weighted)
  moreover have "valueAt c \<lparr>solAmount = 0, usdcAmount = t\<rparr> = t"
    by (simp add: valueAt_def)
  moreover have "valueAt c \<lparr>solAmount = t / c, usdcAmount = 0\<rparr> = t"
    using assms by (simp add: valueAt_def)
  ultimately show ?thesis
    by (cases P; cases Q; simp only: if_True if_False)
qed

lemma valueAt_referenceAllocation:
  "0 < currentPrice \<Longrightarrow>
     valueAt currentPrice (referenceAllocation lowerP upperP currentPrice totalValue)
       = totalValue"
  unfolding referenceAllocation_def Let_def by (rule valueAt_three_way)

lemma valueAt_splitByRange:
  "0 < currentPrice \<Longrightarrow>
     valueAt currentPrice (splitByRange lowerP upperP currentPrice totalValue)
       = totalValue"
  unfolding splitByRange_def Let_def by (rule valueAt_three_way)

lemma valueAt_applyMinimumThresholds:
  "0 < currentPrice \<Longrightarrow> valueAt currentPrice a = totalValue \<Longrightarrow>
     valueAt currentPrice (applyMinimumThresholds currentPrice totalValue a) = totalValue"
  by (simp add: applyMinimumThresholds_def valueAt_def Let_def)

text \<open>
  C9. For \<open>0 < lowerPrice < upperPrice\<close>, \<open>currentPrice > 0\<close> and \<open>totalValue \<ge> 0\<close> both
  allocation functions conserve value exactly over the reals: the base amount times the
  current price plus the quote amount equals the total value, in every branch, and for
  \<open>calculateOptimalAmounts\<close> after its two threshold statements.
\<close>

theorem allocation_conserves_value:
  assumes "0 < lowerP" and "lowerP < upperP"
    and "0 < currentPrice" and "0 \<le> totalValue"
  shows "(\<exists>a. getOptimalAmounts (Inr currentPrice) lowerP upperP totalValue = Inr a
            \<and> valueAt currentPrice a = totalValue)
       \<and> valueAt currentPrice (calculateOptimalAmounts lowerP upperP currentPrice totalValue)
           = totalValue"
proof
  show "\<exists>a. getOptimalAmounts (Inr currentPrice) lowerP upperP totalValue = Inr a
            \<and> valueAt currentPrice a = totalValue"
    using assms(3) by (simp add: getOptimalAmounts_reference valueAt_referenceAllocation)
next
  show "valueAt currentPrice (calculateOptimalAmounts lowerP upperP currentPrice totalValue)
           = totalValue"
    unfolding calculateOptimalAmounts_def
    using assms(3) by (intro valueAt_applyMinimumThresholds valueAt_splitByRange)
qed

theorem allocation_conserves_value_witness:
  "(0::real) < 1 \<and> (1::real) < 16 \<and> (0::real) < 4 \<and> (0::real) \<le> 120
   \<and> (\<exists>a. getOptimalAmounts (Inr 4) 1 16 120 = Inr a \<and> valueAt 4 a = 120)
   \<and> valueAt 4 (calculateOptimalAmounts 1 16 4 120) = 120"
  using allocation_conserves_value [of 1 16 4 120] by simp

lemma applyMinimumThresholds_cases:
  "applyMinimumThresholds currentPrice totalValue a =
     (if solAmount a < MIN_SOL_AMOUNT then
        (if totalValue < MIN_USDC_AMOUNT
         then \<lparr>solAmount = totalValue / currentPrice, usdcAmount = 0\<rparr>
         else \<lparr>solAmount = 0, usdcAmount = totalValue\<rparr>)
      else if usdcAmount a < MIN_USDC_AMOUNT
        then \<lparr>solAmount = totalValue / currentPrice, usdcAmount = 0\<rparr>
        else a)"
  by (simp add: applyMinimumThresholds_def Let_def)

lemma applyMinimumThresholds_quote_leg:
  "usdcAmount (applyMinimumThresholds currentPrice totalValue a) = 0
   \<or> MIN_USDC_AMOUNT \<le> usdcAmount (applyMinimumThresholds currentPrice totalValue a)"
  by (simp add: applyMinimumThresholds_cases)

lemma applyMinimumThresholds_base_leg:
  "solAmount (applyMinimumThresholds currentPrice totalValue a) = 0
   \<or> MIN_SOL_AMOUNT \<le> solAmount (applyMinimumThresholds currentPrice totalValue a)
   \<or> applyMinimumThresholds currentPrice totalValue a
        = \<lparr>solAmount = totalValue / currentPrice, usdcAmount = 0\<rparr>"
  by (simp add: applyMinimumThresholds_cases)

lemma splitByRange_in_range:
  assumes "lowerP < currentPrice" and "currentPrice < upperP"
  shows "splitByRange lowerP upperP currentPrice totalValue =
           \<lparr>solAmount = (totalValue / currentPrice)
                * ((sqrt upperP - sqrt currentPrice) / (sqrt upperP - sqrt lowerP)),
            usdcAmount = totalValue
                * (1 - (sqrt upperP - sqrt currentPrice) / (sqrt upperP - sqrt lowerP))\<rparr>"
proof -
  have "sqrt lowerP < sqrt upperP"
    using assms by simp
  then have d: "sqrt upperP - sqrt lowerP \<noteq> 0"
    by simp
  have "1 - (sqrt upperP - sqrt currentPrice) / (sqrt upperP - sqrt lowerP)
          = (sqrt currentPrice - sqrt lowerP) / (sqrt upperP - sqrt lowerP)"
    using d by (simp add: field_simps)
  moreover have "1 - (sqrt currentPrice - sqrt lowerP) / (sqrt upperP - sqrt lowerP)
          = (sqrt upperP - sqrt currentPrice) / (sqrt upperP - sqrt lowerP)"
    using d by (simp add: field_simps)
  moreover have "splitByRange lowerP upperP currentPrice totalValue =
           \<lparr>solAmount = (totalValue / currentPrice)
                * (1 - (sqrt currentPrice - sqrt lowerP) / (sqrt upperP - sqrt lowerP)),
            usdcAmount = totalValue
                * ((sqrt currentPrice - sqrt lowerP) / (sqrt upperP - sqrt lowerP))\<rparr>"
    using assms by (simp add: splitByRange_def Let_def)
  ultimately show ?thesis
    by (simp only:)
qed

text \<open>
  C1. Evaluation at inputs where a returned leg is non-zero and below its minimum.
  \<open>getOptimalAmounts\<close>, the function the position manager calls, has no threshold block:
  at price 9 in the range 1 to 16 with total value 12 it returns 4 USDC, below
  \<open>MIN_USDC_AMOUNT = 5\<close>. \<open>calculateOptimalAmounts\<close> has the block, and still returns
  0.0025 SOL (below \<open>MIN_SOL_AMOUNT = 0.01\<close>) at price 400, range 400 to 900, total value 1,
  since the base amount is not tested again after the quote statement has refilled it.
\<close>

theorem allocation_returns_dust:
  "getOptimalAmounts (Inr 9) 1 16 12 = Inr \<lparr>solAmount = 8 / 9, usdcAmount = 4\<rparr>
   \<and> \<not> dustFree \<lparr>solAmount = 8 / 9, usdcAmount = 4\<rparr>
   \<and> calculateOptimalAmounts 400 900 400 1 = \<lparr>solAmount = 1 / 400, usdcAmount = 0\<rparr>
   \<and> \<not> dustFree \<lparr>solAmount = 1 / 400, usdcAmount = 0\<rparr>"
  by (simp add: getOptimalAmounts_def calculateOptimalAmounts_def splitByRange_def
      applyMinimumThresholds_def dustFree_def MIN_SOL_AMOUNT_def MIN_USDC_AMOUNT_def Let_def)

text \<open>
  C3. Evaluation inside the range, at price 4 in the range 1 to 16 with total value 120,
  where the reference weight is 2/3. The reference formula and \<open>getOptimalAmounts\<close> give
  10 SOL and 80 USDC; the first block of \<open>calculateOptimalAmounts\<close> gives 20 SOL and
  40 USDC (the weights exchanged), and its threshold block leaves that unchanged.
\<close>

theorem calculateOptimalAmounts_exchanges_weights:
  "referenceAllocation 1 16 4 120 = \<lparr>solAmount = 10, usdcAmount = 80\<rparr>
   \<and> getOptimalAmounts (Inr 4) 1 16 120 = Inr \<lparr>solAmount = 10, usdcAmount = 80\<rparr>
   \<and> splitByRange 1 16 4 120 = \<lparr>solAmount = 20, usdcAmount = 40\<rparr>
   \<and> calculateOptimalAmounts 1 16 4 120 = \<lparr>solAmount = 20, usdcAmount = 40\<rparr>"
  by (simp add: getOptimalAmounts_def calculateOptimalAmounts_def splitByRange_def
      referenceAllocation_def applyMinimumThresholds_def MIN_SOL_AMOUNT_def MIN_USDC_AMOUNT_def
      Let_def)

text \<open>
  C4, as the claim states it, fails for \<open>calculateOptimalAmounts\<close>: at the lower bound with
  total value 1 the threshold block moves the value into the base asset, and above the upper
  bound with total value 6 at price 900 it moves the value into the quote asset.
\<close>

theorem boundary_invariant_counterexample:
  "(400::real) < 900 \<and> (400::real) \<le> 400
   \<and> solAmount (calculateOptimalAmounts 400 900 400 1) = 1 / 400
   \<and> (100::real) < 400 \<and> (900::real) \<ge> 400
   \<and> usdcAmount (calculateOptimalAmounts 100 400 900 6) = 6"
  by (simp add: calculateOptimalAmounts_def splitByRange_def applyMinimumThresholds_def
      MIN_SOL_AMOUNT_def MIN_USDC_AMOUNT_def Let_def)

text \<open>
  C4, amended. For \<open>lowerBound < upperBound\<close>: \<open>getOptimalAmounts\<close> returns a zero base
  amount when \<open>currentPrice \<le> lowerBound\<close> and a zero quote amount when
  \<open>currentPrice \<ge> upperBound\<close>, for every total value. \<open>calculateOptimalAmounts\<close> returns a
  zero base amount when \<open>currentPrice \<le> lowerBound\<close> and the total value is at least
  \<open>MIN_USDC_AMOUNT\<close>, and a zero quote amount when \<open>currentPrice \<ge> upperBound\<close> and either
  \<open>totalValue / currentPrice\<close> is at least \<open>MIN_SOL_AMOUNT\<close> or the total value is below
  \<open>MIN_USDC_AMOUNT\<close>.
\<close>

theorem boundary_invariant:
  assumes "lowerBound < upperBound"
  shows "(currentPrice \<le> lowerBound \<longrightarrow>
            (\<exists>a. getOptimalAmounts (Inr currentPrice) lowerBound upperBound totalValue = Inr a
                 \<and> solAmount a = 0))
       \<and> (currentPrice \<ge> upperBound \<longrightarrow>
            (\<exists>a. getOptimalAmounts (Inr currentPrice) lowerBound upperBound totalValue = Inr a
                 \<and> usdcAmount a = 0))
       \<and> (currentPrice \<le> lowerBound \<and> MIN_USDC_AMOUNT \<le> totalValue \<longrightarrow>
            solAmount (calculateOptimalAmounts lowerBound upperBound currentPrice totalValue) = 0)
       \<and> (currentPrice \<ge> upperBound
            \<and> (MIN_SOL_AMOUNT \<le> totalValue / currentPrice \<or> totalValue < MIN_USDC_AMOUNT) \<longrightarrow>
            usdcAmount (calculateOptimalAmounts lowerBound upperBound currentPrice totalValue) = 0)"
proof (intro conjI impI)
  assume "currentPrice \<le> lowerBound"
  then show "\<exists>a. getOptimalAmounts (Inr currentPrice) lowerBound upperBound totalValue = Inr a
                 \<and> solAmount a = 0"
    by (simp add: getOptimalAmounts_def)
next
  assume "currentPrice \<ge> upperBound"
  with assms have "\<not> currentPrice \<le> lowerBound"
    by simp
  with \<open>currentPrice \<ge> upperBound\<close>
  show "\<exists>a. getOptimalAmounts (Inr currentPrice) lowerBound upperBound totalValue = Inr a
                 \<and> usdcAmount a = 0"
    by (simp add: getOptimalAmounts_def)
next
  assume "currentPrice \<le> lowerBound \<and> MIN_USDC_AMOUNT \<le> totalValue"
  then show "solAmount (calculateOptimalAmounts lowerBound upperBound currentPrice totalValue) = 0"
    by (simp add: calculateOptimalAmounts_def splitByRange_def applyMinimumThresholds_cases
        MIN_SOL_AMOUNT_def)
next
  assume a: "currentPrice \<ge> upperBound
     \<and> (MIN_SOL_AMOUNT \<le> totalValue / currentPrice \<or> totalValue < MIN_USDC_AMOUNT)"
  with assms have "\<not> currentPrice \<le> lowerBound"
    by simp
  then have "splitByRange lowerBound upperBound currentPrice totalValue
               = \<lparr>solAmount = totalValue / currentPrice, usdcAmount = 0\<rparr>"
    using a by (simp add: splitByRange_def)
  then show "usdcAmount (calculateOptimalAmounts lowerBound upperBound currentPrice totalValue) = 0"
    using a by (auto simp add: calculateOptimalAmounts_def applyMinimumThresholds_cases
        MIN_USDC_AMOUNT_def)
qed

theorem boundary_invariant_witness:
  "(1::real) < 16
   \<and> (\<exists>a. getOptimalAmounts (Inr 1) 1 16 120 = Inr a \<and> solAmount a = 0)
   \<and> solAmount (calculateOptimalAmounts 1 16 1 120) = 0
   \<and> (\<exists>a. getOptimalAmounts (Inr 16) 1 16 120 = Inr a \<and> usdcAmount a = 0)
   \<and> usdcAmount (calculateOptimalAmounts 1 16 16 120) = 0"
  using boundary_invariant [of 1 16 1 120] boundary_invariant [of 1 16 16 120]
  by (simp add: MIN_SOL_AMOUNT_def MIN_USDC_AMOUNT_def)

text \<open>
  C5, as the claim states it, fails: with \<open>upperPrice = 1 \<le> lowerPrice = 16\<close> both functions
  return an allocation and no error.
\<close>

theorem invalid_range_counterexample:
  "(1::real) \<le> 16
   \<and> getOptimalAmounts (Inr 4) 16 1 120 = Inr \<lparr>solAmount = 0, usdcAmount = 120\<rparr>
   \<and> calculateOptimalAmounts 16 1 4 120 = \<lparr>solAmount = 0, usdcAmount = 120\<rparr>"
  by (simp add: getOptimalAmounts_def calculateOptimalAmounts_def splitByRange_def
      applyMinimumThresholds_def MIN_SOL_AMOUNT_def MIN_USDC_AMOUNT_def Let_def)

text \<open>
  C5, amended. The allocation has no range check. \<open>getOptimalAmounts\<close> is rejected exactly
  when its price read is rejected, with that error; for every successful price read and
  every \<open>lowerPrice\<close>, \<open>upperPrice\<close> and \<open>totalValue\<close> it returns an allocation. With
  \<open>upperPrice \<le> lowerPrice\<close> that allocation is all quote when \<open>currentPrice \<le> lowerPrice\<close>
  and all base otherwise. (\<open>calculateOptimalAmounts\<close> has no error result at all.)
\<close>

theorem allocation_never_rejects_range:
  "getOptimalAmounts (Inl e) lowerP upperP totalValue = Inl e
   \<and> (\<exists>a. getOptimalAmounts (Inr currentPrice) lowerP upperP totalValue = Inr a)
   \<and> (upperP \<le> lowerP \<longrightarrow>
        getOptimalAmounts (Inr currentPrice) lowerP upperP totalValue
          = Inr (if currentPrice \<le> lowerP
                 then \<lparr>solAmount = 0, usdcAmount = totalValue\<rparr>
                 else \<lparr>solAmount = totalValue / currentPrice, usdcAmount = 0\<rparr>))"
  by (simp add: getOptimalAmounts_def Let_def)

theorem allocation_never_rejects_range_witness:
  "(1::real) \<le> 16
   \<and> getOptimalAmounts (Inl (Error ''Pool info not available'')) 16 1 120
        = Inl (Error ''Pool info not available'')
   \<and> (\<exists>a. getOptimalAmounts (Inr 20) 16 1 120 = Inr a)
   \<and> getOptimalAmounts (Inr 20) 16 1 120 = Inr \<lparr>solAmount = 6, usdcAmount = 0\<rparr>"
  using allocation_never_rejects_range [of "Error ''Pool info not available''" 16 1 120 20]
  by simp

section \<open>Theorems about the tick conversion\<close>

lemma floor_align:
  "\<lfloor>real_of_int t / real_of_int s\<rfloor> * s = t - t mod s"
proof -
  have "\<lfloor>real_of_int t / real_of_int s\<rfloor> = t div s"
    by (rule floor_divide_of_int_eq)
  then show ?thesis
    by (simp add: minus_mod_eq_div_mult)
qed

lemma ceiling_align:
  "\<lceil>real_of_int t / real_of_int s\<rceil> * s = t + (- t) mod s"
proof -
  have "\<lceil>real_of_int t / real_of_int s\<rceil> = - \<lfloor>real_of_int (- t) / real_of_int s\<rfloor>"
    by (simp add: ceiling_def)
  also have "\<dots> = - ((- t) div s)"
    by (simp only: floor_divide_of_int_eq)
  finally have "\<lceil>real_of_int t / real_of_int s\<rceil> * s = - ((- t) div s * s)"
    by simp
  also have "\<dots> = - ((- t) - (- t) mod s)"
    by (simp only: minus_mod_eq_div_mult)
  finally show ?thesis
    by simp
qed

text \<open>
  C6. For a positive tick spacing \<open>s\<close> and whatever ticks \<open>priceToTickIndex\<close> returns for the
  two prices, the lower tick index is the multiple of \<open>s\<close> at or below the lower price's tick
  and less than \<open>s\<close> away from it, the upper tick index is the multiple of \<open>s\<close> at or above
  the upper price's tick and less than \<open>s\<close> away from it, and a tick that is already a
  multiple of \<open>s\<close> is returned unchanged on either side.
\<close>

theorem tick_alignment_widens:
  assumes "0 < tickSpacing info"
  shows "\<exists>lo up.
           calculateTickIndexes (Some info) priceToTickIndex lowerP upperP
             = Inr \<lparr>lowerTickIndex = lo, upperTickIndex = up\<rparr>
           \<and> tickSpacing info dvd lo
           \<and> lo \<le> priceToTickIndex lowerP (tickSpacing info)
           \<and> priceToTickIndex lowerP (tickSpacing info) - lo < tickSpacing info
           \<and> tickSpacing info dvd up
           \<and> priceToTickIndex upperP (tickSpacing info) \<le> up
           \<and> up - priceToTickIndex upperP (tickSpacing info) < tickSpacing info
           \<and> (tickSpacing info dvd priceToTickIndex lowerP (tickSpacing info)
                \<longrightarrow> lo = priceToTickIndex lowerP (tickSpacing info))
           \<and> (tickSpacing info dvd priceToTickIndex upperP (tickSpacing info)
                \<longrightarrow> up = priceToTickIndex upperP (tickSpacing info))"
proof -
  define s where "s = tickSpacing info"
  define l where "l = priceToTickIndex lowerP s"
  define u where "u = priceToTickIndex upperP s"
  have pos: "0 < s"
    using assms by (simp add: s_def)
  have run: "calculateTickIndexes (Some info) priceToTickIndex lowerP upperP
               = Inr \<lparr>lowerTickIndex = l - l mod s, upperTickIndex = u + (- u) mod s\<rparr>"
    by (simp add: calculateTickIndexes_def Let_def floor_align ceiling_align s_def l_def u_def)
  have l1: "s dvd l - l mod s"
    by (rule dvd_minus_mod)
  have l2: "l - l mod s \<le> l" and l3: "l - (l - l mod s) < s"
    using pos by simp_all
  have "u + (- u) mod s = - ((- u) - (- u) mod s)"
    by simp
  moreover have "s dvd (- u) - (- u) mod s"
    by (rule dvd_minus_mod)
  ultimately have u1: "s dvd u + (- u) mod s"
    by (simp only: dvd_minus_iff)
  have u2: "u \<le> u + (- u) mod s" and u3: "u + (- u) mod s - u < s"
    using pos by simp_all
  have l4: "s dvd l \<longrightarrow> l - l mod s = l"
    by (simp add: dvd_eq_mod_eq_0)
  have u4: "s dvd u \<longrightarrow> u + (- u) mod s = u"
    by (simp add: dvd_eq_mod_eq_0 [symmetric])
  from run l1 l2 l3 u1 u2 u3 l4 u4 show ?thesis
    unfolding s_def [symmetric] l_def [symmetric] u_def [symmetric] by blast
qed

theorem tick_alignment_widens_witness:
  "(0::int) < 10
   \<and> calculateTickIndexes (Some \<lparr>price = 100, tickSpacing = 10\<rparr>)
        (\<lambda>p s. if p = 90 then - 1053 else 960) 90 110
       = Inr \<lparr>lowerTickIndex = - 1060, upperTickIndex = 960\<rparr>"
  using tick_alignment_widens [of "\<lparr>price = 100, tickSpacing = 10\<rparr>"
      "\<lambda>p s. if p = 90 then - 1053 else 960" 90 110]
  by (simp add: calculateTickIndexes_def Let_def floor_align ceiling_align)

section \<open>Theorems about the submission with retries\<close>

lemma sendLoop_exhausted:
  "\<not> int attempts < retries \<Longrightarrow>
     sendLoop sendAndConfirm retries attempts lastError
       = ([], Inl (TransactionFailedAfter retries lastError))"
  by (subst sendLoop.simps) simp

lemma sendLoop_all_fail:
  assumes "\<forall>k. sendAndConfirm k = Inl (failure k)"
  shows "d = n - Suc a \<Longrightarrow> a < n \<Longrightarrow>
         sendLoop sendAndConfirm (int n) a lastError =
           (concat (map (\<lambda>k. [Attempt k, Sleep (1000 * 2 ^ k)]) [Suc a..<n]) @ [Attempt n],
            Inl (TransactionFailedAfter (int n) (Some (failure n))))"
proof (induction d arbitrary: a lastError)
  case 0
  then have n: "n = Suc a"
    by simp
  show ?case
    unfolding n by (subst sendLoop.simps) (simp add: assms sendLoop_exhausted)
next
  case (Suc d)
  then have more: "Suc a < n" and d: "d = n - Suc (Suc a)"
    by simp_all
  have rest: "sendLoop sendAndConfirm (int n) (Suc a) (Some (failure (Suc a))) =
           (concat (map (\<lambda>k. [Attempt k, Sleep (1000 * 2 ^ k)]) [Suc (Suc a)..<n]) @ [Attempt n],
            Inl (TransactionFailedAfter (int n) (Some (failure n))))"
    using Suc.IH [OF d more] .
  have list: "[Suc a..<n] = Suc a # [Suc (Suc a)..<n]"
    using more by (simp add: upt_conv_Cons)
  show ?case
    using more by (subst sendLoop.simps) (simp add: assms rest list)
qed

lemma retryLoop_all_fail:
  assumes "\<forall>k. fn k = Inl (failure k)"
  shows "d = n - Suc a \<Longrightarrow> a < n \<Longrightarrow>
         retryLoop fn (int n) baseDelay a lastError =
           (concat (map (\<lambda>k. [Attempt k, Sleep (baseDelay * 2 ^ k)]) [Suc a..<n]) @ [Attempt n],
            Inl (failure n))"
proof (induction d arbitrary: a lastError)
  case 0
  then have n: "n = Suc a"
    by simp
  show ?case
    unfolding n by (subst retryLoop.simps) (simp add: assms)
next
  case (Suc d)
  then have more: "Suc a < n" and d: "d = n - Suc (Suc a)"
    by simp_all
  have rest: "retryLoop fn (int n) baseDelay (Suc a) (Some (failure (Suc a))) =
           (concat (map (\<lambda>k. [Attempt k, Sleep (baseDelay * 2 ^ k)]) [Suc (Suc a)..<n]) @ [Attempt n],
            Inl (failure n))"
    using Suc.IH [OF d more] .
  have list: "[Suc a..<n] = Suc a # [Suc (Suc a)..<n]"
    using more by (simp add: upt_conv_Cons)
  show ?case
    using more by (subst retryLoop.simps) (simp add: assms rest list)
qed

lemma attemptsMade_append:
  "attemptsMade (xs @ ys) = attemptsMade xs + attemptsMade ys"
  by (induction xs rule: attemptsMade.induct) simp_all

lemma attemptsMade_rounds:
  "attemptsMade (concat (map (\<lambda>k. [Attempt k, Sleep (f k)]) ks)) = length ks"
  by (induction ks) simp_all

lemma attemptsMade_backoffSchedule:
  "1 \<le> n \<Longrightarrow> attemptsMade (backoffSchedule baseDelay n) = n"
  by (simp add: backoffSchedule_def attemptsMade_append attemptsMade_rounds)

text \<open>
  C2. For every \<open>maxAttempts \<ge> 1\<close>, when every attempt fails, both submitters run the
  schedule of the specification and nothing else: attempts 1 to \<open>maxAttempts\<close>, a sleep of
  \<open>baseDelay * 2 ^ k\<close> after the failed attempt \<open>k\<close> for every \<open>k < maxAttempts\<close> (the base
  delay of \<open>sendTransactionWithRetry\<close> is 1000 ms), no sleep after the last failure, and then
  an error that carries the error of the last attempt. The schedule holds exactly
  \<open>maxAttempts\<close> attempts. (\<open>sendTransactionWithRetry\<close> is taken with its connection
  initialised.)
\<close>

theorem retry_exactly_maxAttempts:
  assumes "1 \<le> maxAttempts"
    and "\<forall>k. sendAndConfirm k = Inl (failure k)"
    and "\<forall>k. fn k = Inl (failure k)"
  shows "sendTransactionWithRetry True sendAndConfirm (int maxAttempts)
           = (backoffSchedule 1000 maxAttempts,
              Inl (TransactionFailedAfter (int maxAttempts) (Some (failure maxAttempts))))
       \<and> retry fn (int maxAttempts) baseDelay
           = (backoffSchedule baseDelay maxAttempts, Inl (failure maxAttempts))
       \<and> attemptsMade (backoffSchedule baseDelay maxAttempts) = maxAttempts"
proof (intro conjI)
  have a: "0 < maxAttempts"
    using assms(1) by simp
  show "sendTransactionWithRetry True sendAndConfirm (int maxAttempts)
           = (backoffSchedule 1000 maxAttempts,
              Inl (TransactionFailedAfter (int maxAttempts) (Some (failure maxAttempts))))"
    unfolding sendTransactionWithRetry_def backoffSchedule_def
    using sendLoop_all_fail [OF assms(2) refl a, of None] by simp
  show "retry fn (int maxAttempts) baseDelay
           = (backoffSchedule baseDelay maxAttempts, Inl (failure maxAttempts))"
    unfolding retry_def backoffSchedule_def
    using retryLoop_all_fail [OF assms(3) refl a, of baseDelay None] by simp
  show "attemptsMade (backoffSchedule baseDelay maxAttempts) = maxAttempts"
    using assms(1) by (rule attemptsMade_backoffSchedule)
qed

theorem retry_exactly_maxAttempts_witness:
  "(1::nat) \<le> 3
   \<and> sendTransactionWithRetry True (\<lambda>k. Inl (Error ''blockhash expired'')) 3
       = ([Attempt 1, Sleep 2000, Attempt 2, Sleep 4000, Attempt 3],
          Inl (TransactionFailedAfter 3 (Some (Error ''blockhash expired''))))
   \<and> retry (\<lambda>k. Inl (Error ''blockhash expired'') :: error + string) 3 500
       = ([Attempt 1, Sleep 1000, Attempt 2, Sleep 2000, Attempt 3],
          Inl (Error ''blockhash expired''))
   \<and> attemptsMade [Attempt 1, Sleep 1000, Attempt 2, Sleep 2000, Attempt 3] = 3"
proof -
  have s: "[Suc 0..<3] = [Suc 0, 2]"
    by code_simp
  show ?thesis
    using retry_exactly_maxAttempts [of 3 "\<lambda>k. Inl (Error ''blockhash expired'')"
        "\<lambda>k. Error ''blockhash expired''" "\<lambda>k. Inl (Error ''blockhash expired'')" 500]
    by (simp add: backoffSchedule_def s)
qed

section \<open>Theorems about the rebalance cycle\<close>

lemma closeIfOutOfRange_cases:
  "closeIfOutOfRange env p i q flag =
     (if isPositionInRange p q then
        ([LogInfo (''Position '' @ positionId q @ '' is in range, keeping'') []], Inr flag)
      else (case closeOutcome env i (positionId q) of
              Inr signature \<Rightarrow>
                ([LogInfo (''Position '' @ positionId q @ '' is out of range, closing'') [],
                  ClosePosition (positionId q),
                  SendPositionWithdrawnNotification q,
                  SendTransactionNotification Withdraw signature (solAmount q) (usdcAmount q)
                    (positionId q)], Inr True)
            | Inl e \<Rightarrow>
                ([LogInfo (''Position '' @ positionId q @ '' is out of range, closing'') [],
                  ClosePosition (positionId q),
                  LogError (''Failed to close position '' @ positionId q) e,
                  SendErrorNotification (''Failed to close position '' @ positionId q) e],
                 Inr flag)))"
  by (simp add: closeIfOutOfRange_def andThen_def tryCatch_def emit_def awaitResult_def Let_def
      split: sum.splits)

lemma closeCalls_append: "closeCalls (xs @ ys) = closeCalls xs @ closeCalls ys"
  by (induction xs rule: closeCalls.induct) simp_all

lemma createCalls_append: "createCalls (xs @ ys) = createCalls xs @ createCalls ys"
  by (induction xs rule: createCalls.induct) simp_all

lemma errorReports_append: "errorReports (xs @ ys) = errorReports xs @ errorReports ys"
  by (induction xs rule: errorReports.induct) simp_all

lemma closeIfOutOfRange_trace:
  "\<exists>t c. closeIfOutOfRange env p i q flag = (t, Inr c)
     \<and> closeCalls t = (if isPositionInRange p q then [] else [positionId q])
     \<and> errorReports t = (if isPositionInRange p q then []
          else (case closeOutcome env i (positionId q) of
                  Inl e \<Rightarrow> [(''Failed to close position '' @ positionId q, e)]
                | Inr signature \<Rightarrow> []))
     \<and> createCalls t = []"
  by (cases "closeOutcome env i (positionId q)"; cases "isPositionInRange p q")
    (auto simp add: closeIfOutOfRange_cases)

lemma closeOutOfRange_trace:
  "\<exists>t c. closeOutOfRange env p i ps flag = (t, Inr c)
     \<and> closeCalls t = map positionId (filter (\<lambda>q. \<not> isPositionInRange p q) ps)
     \<and> errorReports t = failedCloses env p i ps
     \<and> createCalls t = []"
proof (induction ps arbitrary: i flag)
  case Nil
  show ?case by simp
next
  case (Cons q ps)
  obtain t0 c0 where step: "closeIfOutOfRange env p i q flag = (t0, Inr c0)"
    and c0: "closeCalls t0 = (if isPositionInRange p q then [] else [positionId q])"
    and e0: "errorReports t0 = (if isPositionInRange p q then []
      else (case closeOutcome env i (positionId q) of
              Inl e \<Rightarrow> [(''Failed to close position '' @ positionId q, e)]
            | Inr signature \<Rightarrow> []))"
    and n0: "createCalls t0 = []"
    using closeIfOutOfRange_trace [of env p i q flag] by blast
  from Cons.IH [of "Suc i" c0] obtain t1 c1
    where rest: "closeOutOfRange env p (Suc i) ps c0 = (t1, Inr c1)"
      and c1: "closeCalls t1 = map positionId (filter (\<lambda>q. \<not> isPositionInRange p q) ps)"
      and e1: "errorReports t1 = failedCloses env p (Suc i) ps"
      and n1: "createCalls t1 = []"
    by blast
  have "closeOutOfRange env p i (q # ps) flag = (t0 @ t1, Inr c1)"
    by (simp add: step rest andThen_def)
  then show ?case
    using c0 c1 e0 e1 n0 n1
    by (simp add: closeCalls_append errorReports_append createCalls_append)
qed


lemma closeCalls_andThen:
  "closeCalls (fst (andThen m f)) =
     closeCalls (fst m) @ (case snd m of Inl e \<Rightarrow> [] | Inr v \<Rightarrow> closeCalls (fst (f v)))"
  by (cases m; cases "snd m") (auto simp add: andThen_def closeCalls_append split: prod.splits)

lemma closeCalls_tryCatch:
  "closeCalls (fst (tryCatch m h)) =
     closeCalls (fst m) @ (case snd m of Inr v \<Rightarrow> [] | Inl e \<Rightarrow> closeCalls (fst (h e)))"
  by (cases m; cases "snd m") (auto simp add: tryCatch_def closeCalls_append split: prod.splits)

lemma snd_andThen:
  "snd (andThen m f) = (case snd m of Inl e \<Rightarrow> Inl e | Inr v \<Rightarrow> snd (f v))"
  by (cases m; cases "snd m") (auto simp add: andThen_def split: prod.splits)

lemma snd_tryCatch:
  "snd (tryCatch m h) = (case snd m of Inr v \<Rightarrow> Inr v | Inl e \<Rightarrow> snd (h e))"
  by (cases m; cases "snd m") (auto simp add: tryCatch_def split: prod.splits)

lemma closeCalls_openIfFunded:
  "closeCalls (fst (openIfFunded env p lo up ub k)) = []"
  by (simp add: openIfFunded_def Let_def closeCalls_andThen closeCalls_tryCatch snd_andThen
      emit_def awaitResult_def getOptimalAmounts_reference split: sum.splits)

lemma getPositions_loaded:
  "fst (getPositions (Some info) fetched (tickArrayQuery env) (walletPublicKey env))
     = Inr (listedPositions env)"
  by (simp add: getPositions_def listedPositions_def split: sum.splits)

lemma closeCalls_cycle:
  assumes "balanceReads env 0 = Inr b"
  shows "closeCalls (fst (managePositions env))
           = map positionId (filter (\<lambda>q. \<not> isPositionInRange (price (pool env)) q)
                (listedPositions env))"
proof -
  obtain t c where loop: "closeOutOfRange env (price (pool env)) 0 (listedPositions env) False
                            = (t, Inr c)"
    and calls: "closeCalls t = map positionId
                  (filter (\<lambda>q. \<not> isPositionInRange (price (pool env)) q) (listedPositions env))"
    using closeOutOfRange_trace [of env "price (pool env)" 0 "listedPositions env" False]
    by blast
  show ?thesis
    unfolding managePositions_def cycle_def
    by (simp add: Let_def closeCalls_andThen closeCalls_tryCatch snd_andThen snd_tryCatch
        closeCalls_openIfFunded getPositions_loaded emit_def awaitResult_def assms loop calls
        split: prod.splits sum.splits)
qed


lemma createCalls_andThen:
  "createCalls (fst (andThen m f)) =
     createCalls (fst m) @ (case snd m of Inl e \<Rightarrow> [] | Inr v \<Rightarrow> createCalls (fst (f v)))"
  by (cases m; cases "snd m") (auto simp add: andThen_def createCalls_append split: prod.splits)

lemma createCalls_tryCatch:
  "createCalls (fst (tryCatch m h)) =
     createCalls (fst m) @ (case snd m of Inr v \<Rightarrow> [] | Inl e \<Rightarrow> createCalls (fst (h e)))"
  by (cases m; cases "snd m") (auto simp add: tryCatch_def createCalls_append split: prod.splits)

lemma errorReports_andThen:
  "errorReports (fst (andThen m f)) =
     errorReports (fst m) @ (case snd m of Inl e \<Rightarrow> [] | Inr v \<Rightarrow> errorReports (fst (f v)))"
  by (cases m; cases "snd m") (auto simp add: andThen_def errorReports_append split: prod.splits)

lemma errorReports_tryCatch:
  "errorReports (fst (tryCatch m h)) =
     errorReports (fst m) @ (case snd m of Inr v \<Rightarrow> [] | Inl e \<Rightarrow> errorReports (fst (h e)))"
  by (cases m; cases "snd m") (auto simp add: tryCatch_def errorReports_append split: prod.splits)

lemma openIfFunded_insufficient:
  assumes "sol ub - minSolBalance env < 1 / 10 \<or> usdc ub < 10"
  shows "openIfFunded env p lo up ub k =
           ([LogInfo ''Insufficient funds to create a new position'' [],
             LogInfo ''Requires minimum SOL and USDC'' [1 / 10, 10],
             LogInfo ''Available: SOL and USDC'' [sol ub - minSolBalance env, usdc ub]], Inr ())"
  using assms by (auto simp add: openIfFunded_def Let_def emit_def)

lemma snd_openIfFunded: "snd (openIfFunded env p lo up ub k) = Inr ()"
  by (simp add: openIfFunded_def Let_def snd_andThen snd_tryCatch emit_def awaitResult_def
      getOptimalAmounts_reference split: sum.splits)

lemma createCalls_openIfFunded:
  assumes "\<not> (sol ub - minSolBalance env < 1 / 10 \<or> usdc ub < 10)"
  shows "createCalls (fst (openIfFunded env p lo up ub k)) =
           [(min (solAmount (referenceAllocation lo up p
                    (((sol ub - minSolBalance env) * p + usdc ub) * (98 / 100))))
                 (sol ub - minSolBalance env),
             min (usdcAmount (referenceAllocation lo up p
                    (((sol ub - minSolBalance env) * p + usdc ub) * (98 / 100))))
                 (usdc ub),
             lo, up)]"
  using assms
  by (simp add: openIfFunded_def Let_def createCalls_andThen createCalls_tryCatch snd_andThen
      emit_def awaitResult_def getOptimalAmounts_reference split: sum.splits)

lemma snd_managePositions: "snd (managePositions env) = Inr ()"
  by (simp add: managePositions_def snd_tryCatch emit_def split: sum.splits)

lemma cycle_reads_succeed:
  assumes "balanceReads env 0 = Inr b0"
    and "closeOutOfRange env (price (pool env)) 0 (listedPositions env) False = (t1, Inr c)"
    and "c \<longrightarrow> balanceReads env 1 = Inr ac"
    and "balanceReads env (if c then 2 else 1) = Inr ub"
  shows "createCalls (fst (managePositions env)) =
           createCalls t1 @ createCalls (fst (openIfFunded env (price (pool env))
              (fst (getPriceRange (price (pool env)) (priceRangePercentConfig env)))
              (snd (getPriceRange (price (pool env)) (priceRangePercentConfig env)))
              ub (if c then 3 else 2)))"
    and "errorReports (fst (managePositions env)) =
           errorReports t1 @ errorReports (fst (openIfFunded env (price (pool env))
              (fst (getPriceRange (price (pool env)) (priceRangePercentConfig env)))
              (snd (getPriceRange (price (pool env)) (priceRangePercentConfig env)))
              ub (if c then 3 else 2)))"
proof -
  show "createCalls (fst (managePositions env)) =
           createCalls t1 @ createCalls (fst (openIfFunded env (price (pool env))
              (fst (getPriceRange (price (pool env)) (priceRangePercentConfig env)))
              (snd (getPriceRange (price (pool env)) (priceRangePercentConfig env)))
              ub (if c then 3 else 2)))"
    unfolding managePositions_def cycle_def Let_def case_prod_beta
    using assms
    by (cases c) (simp_all add: createCalls_andThen createCalls_tryCatch snd_andThen
        snd_openIfFunded getPositions_loaded emit_def awaitResult_def numeral_2_eq_2
        numeral_3_eq_3)
  show "errorReports (fst (managePositions env)) =
           errorReports t1 @ errorReports (fst (openIfFunded env (price (pool env))
              (fst (getPriceRange (price (pool env)) (priceRangePercentConfig env)))
              (snd (getPriceRange (price (pool env)) (priceRangePercentConfig env)))
              ub (if c then 3 else 2)))"
    unfolding managePositions_def cycle_def Let_def case_prod_beta
    using assms
    by (cases c) (simp_all add: errorReports_andThen errorReports_tryCatch snd_andThen
        snd_openIfFunded getPositions_loaded emit_def awaitResult_def numeral_2_eq_2
        numeral_3_eq_3)
qed


text \<open>
  C7. The loop over the listed positions calls \<open>closePosition\<close> for exactly the positions
  that are not in range, in their order, whatever the outcome of each close; every failed
  close is reported by an error notification and the loop goes on (it never throws). In a
  cycle whose first balance read succeeds, these are all the close calls the cycle makes.
\<close>

theorem close_exactly_out_of_range:
  "(\<exists>t c. closeOutOfRange env p i ps flag = (t, Inr c)
      \<and> closeCalls t = map positionId (filter (\<lambda>q. \<not> isPositionInRange p q) ps)
      \<and> errorReports t = failedCloses env p i ps)
   \<and> (balanceReads env 0 = Inr b \<longrightarrow>
        closeCalls (fst (managePositions env))
          = map positionId (filter (\<lambda>q. \<not> isPositionInRange (price (pool env)) q)
              (listedPositions env)))"
  using closeOutOfRange_trace [of env p i ps flag] closeCalls_cycle [of env b] by blast

theorem close_exactly_out_of_range_witness:
  "balanceReads (exampleEnv examplePositions \<lparr>sol = 0, usdc = 0\<rparr>) 0 = Inr \<lparr>sol = 0, usdc = 0\<rparr>
   \<and> closeCalls (fst (managePositions (exampleEnv examplePositions \<lparr>sol = 0, usdc = 0\<rparr>)))
       = [''B'', ''C'']
   \<and> (\<exists>t c. closeOutOfRange (exampleEnv examplePositions \<lparr>sol = 0, usdc = 0\<rparr>) 100 0
                examplePositions False = (t, Inr c)
          \<and> closeCalls t = [''B'', ''C'']
          \<and> errorReports t = [(''Failed to close position B'', Error ''rejected'')])"
proof -
  have "balanceReads (exampleEnv examplePositions \<lparr>sol = 0, usdc = 0\<rparr>) 0
          = Inr \<lparr>sol = 0, usdc = 0\<rparr>"
    by (simp add: exampleEnv_def)
  moreover have "listedPositions (exampleEnv examplePositions \<lparr>sol = 0, usdc = 0\<rparr>)
          = examplePositions"
    by (simp add: listedPositions_def exampleEnv_def examplePositions_def)
  moreover have "map positionId (filter (\<lambda>q. \<not> isPositionInRange 100 q) examplePositions)
          = [''B'', ''C'']"
    by (simp add: examplePositions_def isPositionInRange_def)
  moreover have "failedCloses (exampleEnv examplePositions \<lparr>sol = 0, usdc = 0\<rparr>) 100 0
            examplePositions = [(''Failed to close position B'', Error ''rejected'')]"
    by (simp add: examplePositions_def isPositionInRange_def exampleEnv_def)
  moreover have "price (pool (exampleEnv examplePositions \<lparr>sol = 0, usdc = 0\<rparr>)) = 100"
    by (simp add: exampleEnv_def)
  ultimately show ?thesis
    using close_exactly_out_of_range [of "exampleEnv examplePositions \<lparr>sol = 0, usdc = 0\<rparr>"
        100 0 examplePositions False "\<lparr>sol = 0, usdc = 0\<rparr>"]
    by simp
qed

text \<open>
  C8. With \<open>availableSol = sol - minSolBalance\<close>: if \<open>availableSol < 0.1\<close> or
  \<open>usdc < 10\<close> the reallocation step only logs "Insufficient funds" and ends normally,
  otherwise it calls \<open>createPosition\<close> once, with the amounts of \<open>getOptimalAmounts\<close> for
  98% of the deployable value, each clamped to what is held. In a cycle whose balance reads
  succeed, \<open>managePositions\<close> ends normally, makes no \<open>createPosition\<close> call exactly in
  the first case, and then reports no error besides the failed closes.
\<close>

theorem open_only_when_funded:
  "(sol ub - minSolBalance env < 1 / 10 \<or> usdc ub < 10 \<longrightarrow>
      openIfFunded env p lo up ub k =
        ([LogInfo ''Insufficient funds to create a new position'' [],
          LogInfo ''Requires minimum SOL and USDC'' [1 / 10, 10],
          LogInfo ''Available: SOL and USDC'' [sol ub - minSolBalance env, usdc ub]], Inr ()))
   \<and> (\<not> (sol ub - minSolBalance env < 1 / 10 \<or> usdc ub < 10) \<longrightarrow>
        snd (openIfFunded env p lo up ub k) = Inr ()
        \<and> (\<exists>a. getOptimalAmounts (Inr p) lo up
                  (((sol ub - minSolBalance env) * p + usdc ub) * (98 / 100)) = Inr a
              \<and> createCalls (fst (openIfFunded env p lo up ub k))
                  = [(min (solAmount a) (sol ub - minSolBalance env),
                      min (usdcAmount a) (usdc ub), lo, up)]))
   \<and> (balanceReads env 0 = Inr b0
        \<and> closeOutOfRange env (price (pool env)) 0 (listedPositions env) False = (t1, Inr c)
        \<and> (c \<longrightarrow> balanceReads env 1 = Inr ac)
        \<and> balanceReads env (if c then 2 else 1) = Inr ub \<longrightarrow>
        snd (managePositions env) = Inr ()
        \<and> (createCalls (fst (managePositions env)) = []
             \<longleftrightarrow> sol ub - minSolBalance env < 1 / 10 \<or> usdc ub < 10)
        \<and> (sol ub - minSolBalance env < 1 / 10 \<or> usdc ub < 10 \<longrightarrow>
             errorReports (fst (managePositions env))
               = failedCloses env (price (pool env)) 0 (listedPositions env)))"
proof (intro conjI impI)
  assume "sol ub - minSolBalance env < 1 / 10 \<or> usdc ub < 10"
  then show "openIfFunded env p lo up ub k =
        ([LogInfo ''Insufficient funds to create a new position'' [],
          LogInfo ''Requires minimum SOL and USDC'' [1 / 10, 10],
          LogInfo ''Available: SOL and USDC'' [sol ub - minSolBalance env, usdc ub]], Inr ())"
    by (rule openIfFunded_insufficient)
next
  show "snd (openIfFunded env p lo up ub k) = Inr ()"
    by (rule snd_openIfFunded)
next
  assume "\<not> (sol ub - minSolBalance env < 1 / 10 \<or> usdc ub < 10)"
  then show "\<exists>a. getOptimalAmounts (Inr p) lo up
                  (((sol ub - minSolBalance env) * p + usdc ub) * (98 / 100)) = Inr a
              \<and> createCalls (fst (openIfFunded env p lo up ub k))
                  = [(min (solAmount a) (sol ub - minSolBalance env),
                      min (usdcAmount a) (usdc ub), lo, up)]"
    by (intro exI [of _ "referenceAllocation lo up p
          (((sol ub - minSolBalance env) * p + usdc ub) * (98 / 100))"] conjI
        getOptimalAmounts_reference createCalls_openIfFunded)
next
  show "snd (managePositions env) = Inr ()"
    by (rule snd_managePositions)
next
  assume reads: "balanceReads env 0 = Inr b0
        \<and> closeOutOfRange env (price (pool env)) 0 (listedPositions env) False = (t1, Inr c)
        \<and> (c \<longrightarrow> balanceReads env 1 = Inr ac)
        \<and> balanceReads env (if c then 2 else 1) = Inr ub"
  then have r0: "balanceReads env 0 = Inr b0"
    and loop: "closeOutOfRange env (price (pool env)) 0 (listedPositions env) False = (t1, Inr c)"
    and r1: "c \<longrightarrow> balanceReads env 1 = Inr ac"
    and r2: "balanceReads env (if c then 2 else 1) = Inr ub"
    by blast+
  obtain t' c' where "closeOutOfRange env (price (pool env)) 0 (listedPositions env) False
                        = (t', Inr c')"
    and "createCalls t' = []"
    and "errorReports t' = failedCloses env (price (pool env)) 0 (listedPositions env)"
    using closeOutOfRange_trace [of env "price (pool env)" 0 "listedPositions env" False]
    by blast
  with loop have t1: "createCalls t1 = []"
    "errorReports t1 = failedCloses env (price (pool env)) 0 (listedPositions env)"
    by simp_all
  note whole = cycle_reads_succeed [OF r0 loop r1 r2]
  show "createCalls (fst (managePositions env)) = []
             \<longleftrightarrow> sol ub - minSolBalance env < 1 / 10 \<or> usdc ub < 10"
  proof (cases "sol ub - minSolBalance env < 1 / 10 \<or> usdc ub < 10")
    case True
    then show ?thesis
      by (simp add: whole(1) t1 openIfFunded_insufficient)
  next
    case False
    then show ?thesis
      by (simp add: whole(1) t1 createCalls_openIfFunded)
  qed
  assume "sol ub - minSolBalance env < 1 / 10 \<or> usdc ub < 10"
  then show "errorReports (fst (managePositions env))
               = failedCloses env (price (pool env)) 0 (listedPositions env)"
    by (simp add: whole(2) t1 openIfFunded_insufficient)
qed


theorem open_only_when_funded_witness:
  "createCalls (fst (managePositions (exampleEnv [] \<lparr>sol = 1 / 10, usdc = 5\<rparr>))) = []
   \<and> errorReports (fst (managePositions (exampleEnv [] \<lparr>sol = 1 / 10, usdc = 5\<rparr>))) = []
   \<and> snd (managePositions (exampleEnv [] \<lparr>sol = 1 / 10, usdc = 5\<rparr>)) = Inr ()
   \<and> createCalls (fst (managePositions (exampleEnv [] \<lparr>sol = 2, usdc = 50\<rparr>))) \<noteq> []"
proof -
  have loop: "closeOutOfRange (exampleEnv [] held) (price (pool (exampleEnv [] held))) 0
                (listedPositions (exampleEnv [] held)) False = ([], Inr False)" for held
    by (simp add: listedPositions_def exampleEnv_def)
  have reads: "balanceReads (exampleEnv [] held) k = Inr held" for held k
    by (simp add: exampleEnv_def)
  have reserve: "minSolBalance (exampleEnv [] held) = 1 / 20" for held
    by (simp add: exampleEnv_def)
  have none: "failedCloses (exampleEnv [] held) (price (pool (exampleEnv [] held))) 0
                (listedPositions (exampleEnv [] held)) = []" for held
    by (simp add: listedPositions_def exampleEnv_def)
  show ?thesis
    using open_only_when_funded [where env = "exampleEnv [] \<lparr>sol = 1 / 10, usdc = 5\<rparr>"
        and ub = "\<lparr>sol = 1 / 10, usdc = 5\<rparr>" and ?b0.0 = "\<lparr>sol = 1 / 10, usdc = 5\<rparr>"
        and ?t1.0 = "[]" and c = False]
      open_only_when_funded [where env = "exampleEnv [] \<lparr>sol = 2, usdc = 50\<rparr>"
        and ub = "\<lparr>sol = 2, usdc = 50\<rparr>" and ?b0.0 = "\<lparr>sol = 2, usdc = 50\<rparr>"
        and ?t1.0 = "[]" and c = False]
    by (simp add: loop reads reserve none)
qed

section \<open>Theorems about the position listing\<close>

text \<open>
  C10, as the claim states it, fails: with no pool state loaded, \<open>getPositions\<close> runs
  \<open>fetchPoolInfo\<close> before its \<open>try\<close> block, and an error of that fetch is thrown to the
  caller.
\<close>

theorem getPositions_propagates_fetch_failure:
  "getPositions None (Inl (Error ''fetch failed'')) (Inr []) ''wallet''
     = (Inl (Error ''fetch failed''), None)"
  by (simp add: getPositions_def fetchPoolInfo_def)

text \<open>
  C10, amended. With the pool state loaded (as it is whenever the position manager calls
  it), \<open>getPositions\<close> returns a list for every outcome of the position query, the empty
  list when the query throws, and leaves the pool state as it is. With no pool state
  loaded, it throws exactly when \<open>fetchPoolInfo\<close> throws, with that error, and otherwise
  returns a list and keeps the fetched pool state.
\<close>

theorem getPositions_total_when_loaded:
  "(\<exists>ps. getPositions (Some info) fetched queried w = (Inr ps, Some info))
   \<and> getPositions (Some info) fetched (Inl queryError) w = (Inr [], Some info)
   \<and> (fetchPoolInfo fetched = Inl fetchError \<longrightarrow>
        getPositions None fetched queried w = (Inl fetchError, None))
   \<and> (fetchPoolInfo fetched = Inr info \<longrightarrow>
        (\<exists>ps. getPositions None fetched queried w = (Inr ps, Some info)))"
  by (simp add: getPositions_def split: sum.splits)

theorem getPositions_total_when_loaded_witness:
  "getPositions (Some \<lparr>price = 100, tickSpacing = 10\<rparr>) (Inl (Error ''fetch failed''))
      (Inl (Error ''query failed'')) ''wallet''
     = (Inr [], Some \<lparr>price = 100, tickSpacing = 10\<rparr>)
   \<and> fetchPoolInfo (Inl (Error ''fetch failed'')) = Inl (Error ''fetch failed'')
   \<and> getPositions None (Inl (Error ''fetch failed'')) (Inl (Error ''query failed'')) ''wallet''
     = (Inl (Error ''fetch failed''), None)
   \<and> fetchPoolInfo (Inr [\<lparr>price = 100, tickSpacing = 10\<rparr>]) = Inr \<lparr>price = 100, tickSpacing = 10\<rparr>
   \<and> (\<exists>ps. getPositions None (Inr [\<lparr>price = 100, tickSpacing = 10\<rparr>])
          (Inl (Error ''query failed'')) ''wallet''
        = (Inr ps, Some \<lparr>price = 100, tickSpacing = 10\<rparr>))"
  using getPositions_total_when_loaded [of "\<lparr>price = 100, tickSpacing = 10\<rparr>"
      "Inl (Error ''fetch failed'')" "Inl (Error ''query failed'')" "''wallet''"
      "Error ''query failed''" "Error ''fetch failed''"]
    getPositions_total_when_loaded [of "\<lparr>price = 100, tickSpacing = 10\<rparr>"
      "Inr [\<lparr>price = 100, tickSpacing = 10\<rparr>]" "Inl (Error ''query failed'')" "''wallet''"
      "Error ''query failed''" "Error ''fetch failed''"]
  by (simp add: fetchPoolInfo_def)

end
